theory Spec2Isabelle
  imports Complex_Main
begin

section \<open>Numbers\<close>

text \<open>
  The controller of \<^verbatim>\<open>src/intervention/controller.py\<close> computes on Python floats and
  NumPy \<^verbatim>\<open>float64\<close> scalars. A finite float is modelled as a real number: rounding and
  overflow are idealised away, and so is the sign of zero. The values \<^verbatim>\<open>inf\<close>,
  \<^verbatim>\<open>-inf\<close> and \<^verbatim>\<open>nan\<close> are kept, because the code produces them from finite
  inputs: \<^verbatim>\<open>math.inf\<close> is a return value of \<^verbatim>\<open>_turning_radius_to\<close>, and a NumPy division
  by zero returns \<^verbatim>\<open>inf\<close> or \<^verbatim>\<open>nan\<close> with a warning where a division of two Python
  floats raises \<^verbatim>\<open>ZeroDivisionError\<close>.
\<close>

datatype float64 = Fin real | PInf | NInf | NaN

datatype py_exception = NameError | UnboundLocalError | ZeroDivisionError

fun fneg :: "float64 \<Rightarrow> float64" where
  "fneg (Fin a) = Fin (- a)"
| "fneg PInf = NInf"
| "fneg NInf = PInf"
| "fneg NaN = NaN"

fun fabs :: "float64 \<Rightarrow> float64" where
  "fabs (Fin a) = Fin \<bar>a\<bar>"
| "fabs PInf = PInf"
| "fabs NInf = PInf"
| "fabs NaN = NaN"

fun fadd :: "float64 \<Rightarrow> float64 \<Rightarrow> float64" where
  "fadd (Fin a) (Fin b) = Fin (a + b)"
| "fadd NaN _ = NaN"
| "fadd _ NaN = NaN"
| "fadd PInf NInf = NaN"
| "fadd NInf PInf = NaN"
| "fadd PInf _ = PInf"
| "fadd NInf _ = NInf"
| "fadd _ PInf = PInf"
| "fadd _ NInf = NInf"

definition fsub :: "float64 \<Rightarrow> float64 \<Rightarrow> float64" where
  "fsub a b = fadd a (fneg b)"

text \<open>The sign of an infinity scaled by a finite factor; \<open>inf * 0\<close> is \<open>nan\<close>.\<close>

definition scale_inf :: "float64 \<Rightarrow> real \<Rightarrow> float64" where
  "scale_inf i a = (if a = 0 then NaN else if 0 < a then i else fneg i)"

fun fmul :: "float64 \<Rightarrow> float64 \<Rightarrow> float64" where
  "fmul (Fin a) (Fin b) = Fin (a * b)"
| "fmul NaN _ = NaN"
| "fmul _ NaN = NaN"
| "fmul (Fin a) i = scale_inf i a"
| "fmul i (Fin b) = scale_inf i b"
| "fmul PInf i = i"
| "fmul NInf i = fneg i"

text \<open>
  Division as IEEE 754 and NumPy have it: a finite non-zero value over zero is an
  infinity, zero over zero is \<open>nan\<close>, and nothing is raised. Zero has no sign here, so the
  infinity takes the sign of the numerator.
\<close>

fun fdiv :: "float64 \<Rightarrow> float64 \<Rightarrow> float64" where
  "fdiv (Fin a) (Fin b) =
     (if b = 0 then (if a = 0 then NaN else if 0 < a then PInf else NInf) else Fin (a / b))"
| "fdiv NaN _ = NaN"
| "fdiv _ NaN = NaN"
| "fdiv (Fin a) _ = Fin 0"
| "fdiv i (Fin b) = (if 0 \<le> b then i else fneg i)"
| "fdiv _ _ = NaN"

text \<open>Comparisons: every comparison with \<open>nan\<close> is false.\<close>

fun flt :: "float64 \<Rightarrow> float64 \<Rightarrow> bool" where
  "flt (Fin a) (Fin b) = (a < b)"
| "flt NaN _ = False"
| "flt _ NaN = False"
| "flt _ NInf = False"
| "flt PInf _ = False"
| "flt _ _ = True"

definition feq :: "float64 \<Rightarrow> float64 \<Rightarrow> bool" where
  "feq a b = (a \<noteq> NaN \<and> a = b)"

text \<open>Division of two Python floats (\<^verbatim>\<open>a / b\<close>): a zero divisor raises.\<close>

definition py_truediv :: "real \<Rightarrow> real \<Rightarrow> py_exception + real" where
  "py_truediv a b = (if b = 0 then Inl ZeroDivisionError else Inr (a / b))"


section \<open>The PID controller\<close>

text \<open>
  \<^verbatim>\<open>class PidController\<close> (controller.py, lines 83 to 133). The fields are those set by
  \<^verbatim>\<open>__init__\<close>; \<^verbatim>\<open>_previous_error\<close> is \<^verbatim>\<open>None\<close> until the first updating step.
\<close>

record PidController =
  coef_proportional :: real
  coef_integral :: real
  coef_derivative :: real
  integral_discounting :: real
  dt :: real
  previous_error :: "real option"
  error_integral :: real

definition PidController_init :: "real \<Rightarrow> real \<Rightarrow> real \<Rightarrow> real \<Rightarrow> real \<Rightarrow> PidController" where
  "PidController_init unit_time_per_step proportional integral derivative
       integral_discounting_per_step =
     \<lparr> coef_proportional = proportional,
       coef_integral = integral,
       coef_derivative = derivative,
       integral_discounting = integral_discounting_per_step,
       dt = unit_time_per_step,
       previous_error = None,
       error_integral = 0 \<rparr>"

text \<open>
  \<^verbatim>\<open>PidController.step\<close> (lines 107 to 133). The result pairs what the call returns or
  raises with the controller as the call leaves it. The only operation that can raise is
  the division by \<^verbatim>\<open>self._dt\<close> in the derivative, and both assignments to \<^verbatim>\<open>self\<close> come
  after it, so a raising call leaves the controller as it was. The division is that of
  Python floats; with a NumPy scalar as error or previous error, a zero timestep gives
  \<^verbatim>\<open>inf\<close> or \<^verbatim>\<open>nan\<close> in place of the exception, numbers that the reals of this record do
  not have.
\<close>

definition PidController_step ::
  "PidController \<Rightarrow> real \<Rightarrow> bool \<Rightarrow> (py_exception + real) \<times> PidController" where
  "PidController_step self error update =
     (let error_integral0 = error_integral self;
          error_integral1 = error_integral0 * (1 - integral_discounting self);
          error_integral2 = error_integral1 + error * dt self
      in case (case previous_error self of
                 Some previous \<Rightarrow> py_truediv (error - previous) (dt self)
               | None \<Rightarrow> Inr 0) of
           Inl exn \<Rightarrow> (Inl exn, self)
         | Inr derivative \<Rightarrow>
             (let control0 = 0;
                  control1 = control0 + coef_proportional self * error;
                  control2 = control1 + coef_integral self * error_integral self;
                  control3 = control2 + coef_derivative self * derivative
              in (Inr control3,
                  if update
                  then self\<lparr> previous_error := Some error, error_integral := error_integral2 \<rparr>
                  else self)))"

text \<open>The derivative term of a step, as line 119 to 122 compute it when they do not raise.\<close>

definition derivative_term :: "PidController \<Rightarrow> real \<Rightarrow> real" where
  "derivative_term self error =
     (case previous_error self of Some previous \<Rightarrow> (error - previous) / dt self | None \<Rightarrow> 0)"

text \<open>A run of updating steps, for statements about the history of errors.\<close>

fun PidController_run :: "PidController \<Rightarrow> real list \<Rightarrow> PidController" where
  "PidController_run self [] = self"
| "PidController_run self (error # errors) =
     PidController_run (snd (PidController_step self error True)) errors"


section \<open>Geometry\<close>

text \<open>
  \<^verbatim>\<open>_turning_radius_to\<close> (lines 58 to 62) is called with two Python floats. Python's
  \<^verbatim>\<open>/\<close> raises on a zero divisor; \<^verbatim>\<open>x ** 2\<close> is the product of \<open>x\<close> with itself.
\<close>

definition py_fdiv :: "float64 \<Rightarrow> float64 \<Rightarrow> py_exception + float64" where
  "py_fdiv a b = (if feq b (Fin 0) then Inl ZeroDivisionError else Inr (fdiv a b))"

definition turning_radius_to :: "float64 \<Rightarrow> float64 \<Rightarrow> py_exception + float64" where
  "turning_radius_to x y =
     (if feq x (Fin 0) then Inr PInf
      else py_fdiv (fadd (fmul x x) (fmul y y)) (fmul (Fin 2) (fabs x)))"


section \<open>The waypoint interpolator\<close>

text \<open>
  A waypoint is a pair of coordinates, and the \<open>(N, 2)\<close> array of waypoints is a list of
  them; the empty list is the array of shape \<open>(0, 2)\<close>. \<^verbatim>\<open>np.linalg.norm\<close> of a vector of
  two coordinates is its Euclidean length. \<^verbatim>\<open>np.float\<close> of line 146 is the builtin
  \<^verbatim>\<open>float\<close>, as it was in NumPy before version 1.24.
\<close>

type_synonym point = "real \<times> real"

definition psub :: "point \<Rightarrow> point \<Rightarrow> point" where
  "psub a b = (fst a - fst b, snd a - snd b)"

definition norm2 :: "point \<Rightarrow> real" where
  "norm2 v = sqrt ((fst v)\<^sup>2 + (snd v)\<^sup>2)"

text \<open>
  Lines 153 to 154 and 161 to 162: \<^verbatim>\<open>unit = direction / dist\<close> and then
  \<^verbatim>\<open>cur_pos + unit * (meters - total_dist)\<close>, coordinate by coordinate. The division is
  NumPy's, so a zero \<^verbatim>\<open>dist\<close> (here \<open>dist'\<close>) gives \<open>nan\<close> or an infinity and raises nothing.
\<close>

definition offset_along :: "point \<Rightarrow> point \<Rightarrow> real \<Rightarrow> real \<Rightarrow> float64 \<times> float64" where
  "offset_along base direction dist' len =
     (fadd (Fin (fst base)) (fmul (fdiv (Fin (fst direction)) (Fin dist')) (Fin len)),
      fadd (Fin (snd base)) (fmul (fdiv (Fin (snd direction)) (Fin dist')) (Fin len)))"

text \<open>
  The loop of \<^verbatim>\<open>_interpolate_waypoint_n_meters_ahead\<close> (lines 150 to 163) over the
  waypoints still to visit. The local \<^verbatim>\<open>dist\<close> is unbound until the first iteration has
  assigned it, so the code after the loop raises \<^verbatim>\<open>UnboundLocalError\<close> when there was no
  waypoint at all.
\<close>

fun interpolate_loop ::
  "point list \<Rightarrow> real \<Rightarrow> real \<Rightarrow> point \<Rightarrow> point \<Rightarrow> real option
     \<Rightarrow> py_exception + (float64 \<times> float64)" where
  "interpolate_loop [] meters total_dist prev_pos cur_pos dist' =
     (case dist' of
        None \<Rightarrow> Inl UnboundLocalError
      | Some d \<Rightarrow> Inr (offset_along cur_pos (psub cur_pos prev_pos) d (meters - total_dist)))"
| "interpolate_loop (waypoint # waypoints) meters total_dist prev_pos cur_pos _ =
     (let dist' = norm2 (psub waypoint cur_pos)
      in if total_dist + dist' \<ge> meters
         then Inr (offset_along cur_pos (psub waypoint cur_pos) dist' (meters - total_dist))
         else interpolate_loop waypoints meters (total_dist + dist') cur_pos waypoint (Some dist'))"

definition interpolate_waypoint_n_meters_ahead ::
  "point list \<Rightarrow> real \<Rightarrow> py_exception + (float64 \<times> float64)" where
  "interpolate_waypoint_n_meters_ahead waypoints meters =
     interpolate_loop waypoints meters 0 (0, 0) (0, 0) None"

text \<open>
  For the statements about the interpolator: the length of the polyline that starts at
  \<open>cur\<close> and runs through the waypoints, and the two ends of its final segment.
\<close>

fun polyline_length :: "point \<Rightarrow> point list \<Rightarrow> real" where
  "polyline_length cur [] = 0"
| "polyline_length cur (waypoint # waypoints) =
     norm2 (psub waypoint cur) + polyline_length waypoint waypoints"

definition final_start :: "point \<Rightarrow> point list \<Rightarrow> point" where
  "final_start cur waypoints = last (cur # butlast waypoints)"

definition final_end :: "point \<Rightarrow> point list \<Rightarrow> point" where
  "final_end cur waypoints = last (cur # waypoints)"

text \<open>
  The point reached by walking on from the last waypoint, straight along the final
  segment, until the whole walk from \<open>cur\<close> is \<open>meters\<close> long.
\<close>

definition extrapolated :: "point \<Rightarrow> point list \<Rightarrow> real \<Rightarrow> point" where
  "extrapolated cur waypoints meters =
     (let a = final_start cur waypoints;
          b = final_end cur waypoints;
          beyond = meters - polyline_length cur waypoints
      in (fst b + (fst b - fst a) / norm2 (psub b a) * beyond,
          snd b + (snd b - snd a) / norm2 (psub b a) * beyond))"


section \<open>The vehicle controller\<close>

text \<open>
  \<^verbatim>\<open>class VehicleController\<close> (lines 166 to 235). Three things it uses are not defined in
  controller.py and are parameters of the model:
  \<^item> \<^verbatim>\<open>physics.KinematicBicycle.turning_radius_to_steering_angle\<close>, the conversion of a
    turning radius to a steering angle, is the field \<open>kinematic_bicycle\<close>, a function that
    returns for every radius;
  \<^item> \<^verbatim>\<open>state.speed\<close> of a \<^verbatim>\<open>TickState\<close> is passed as the number it is;
  \<^item> the name \<^verbatim>\<open>logger\<close>, which line 206 reads and no line of controller.py imports or
    assigns, is bound or not; \<open>logger_bound\<close> says which. With controller.py as it is, it
    is not.
  What \<^verbatim>\<open>print\<close> writes is not modelled. \<^verbatim>\<open>carla.VehicleControl\<close> is the record of the
  three values it is built from.
\<close>

record VehicleControl =
  throttle :: real
  steer :: float64
  brake :: real

record VehicleController =
  waypoint_step_gap :: int
  vc_dt :: real
  kinematic_bicycle :: "float64 \<Rightarrow> float64"
  speed_control :: PidController
  brake_control :: PidController

definition VehicleController_init ::
  "(float64 \<Rightarrow> float64) \<Rightarrow> int \<Rightarrow> real \<Rightarrow> VehicleController" where
  "VehicleController_init vehicle_geometry waypoint_step_gap' unit_time_per_step =
     \<lparr> waypoint_step_gap = waypoint_step_gap',
       vc_dt = unit_time_per_step,
       kinematic_bicycle = vehicle_geometry,
       speed_control = PidController_init unit_time_per_step (5 / 10) (5 / 100) (2 / 100) 0,
       brake_control = PidController_init unit_time_per_step (5 / 10) (5 / 100) (2 / 100) 0 \<rparr>"

text \<open>
  A call of \<^verbatim>\<open>VehicleController.step\<close> returns a \<open>VehicleControl\<close> or raises, or the
  model follows the code no further, in two cases:
  \<^item> \<open>NonFinite\<close>: the target speed is \<^verbatim>\<open>inf\<close> or \<^verbatim>\<open>nan\<close> (the product of step gap and
    timestep is zero, or there is no waypoint), and the code goes on computing with it in
    the PID controllers, whose numbers are reals here. Nothing is raised.
  \<^item> \<open>ZeroTimestep\<close>: a PID controller with a previous error divides by its timestep,
    which is zero. Python raises \<^verbatim>\<open>ZeroDivisionError\<close> when all operands are Python
    floats; when one of them is a NumPy scalar (the acceleration is one, and so is a
    previous error stored from it) the division returns \<^verbatim>\<open>inf\<close> or \<^verbatim>\<open>nan\<close>
    instead. The model does not track which.
\<close>

datatype stop = Raises py_exception | NonFinite | ZeroTimestep

text \<open>\<^verbatim>\<open>max(a, b)\<close> of Python keeps \<open>a\<close> unless \<open>b\<close> is greater; \<^verbatim>\<open>np.clip\<close>.\<close>

definition py_max :: "real \<Rightarrow> real \<Rightarrow> real" where
  "py_max a b = (if b > a then b else a)"

definition np_clip :: "real \<Rightarrow> real \<Rightarrow> real \<Rightarrow> real" where
  "np_clip a a_min a_max = min (max a a_min) a_max"

fun fclip :: "float64 \<Rightarrow> real \<Rightarrow> real \<Rightarrow> float64" where
  "fclip (Fin a) a_min a_max = Fin (np_clip a a_min a_max)"
| "fclip PInf a_min a_max = Fin a_max"
| "fclip NInf a_min a_max = Fin a_min"
| "fclip NaN a_min a_max = NaN"

text \<open>\<^verbatim>\<open>.mean()\<close> of a NumPy array; of an empty one it is \<open>nan\<close>, with a warning.\<close>

definition np_mean :: "real list \<Rightarrow> float64" where
  "np_mean xs = fdiv (Fin (sum_list xs)) (Fin (real (length xs)))"

text \<open>
  Lines 198 to 202, on the waypoints with their coordinates already swapped: the origin is
  put in front, \<open>deltas\<close> are the lengths of the segments, and the mean of the first three
  of them (of all, when there are fewer) is divided by \<^verbatim>\<open>self._waypoint_step_gap * self._dt\<close>.
  The division is NumPy's.
\<close>

definition target_speed :: "VehicleController \<Rightarrow> point list \<Rightarrow> float64" where
  "target_speed self waypoints =
     (let targets = (0, 0) # waypoints;
          deltas = map (\<lambda>(a, b). norm2 (psub a b)) (zip (butlast targets) (tl targets))
      in fdiv (np_mean (take 3 deltas))
              (Fin (real_of_int (waypoint_step_gap self) * vc_dt self)))"

text \<open>
  Lines 229 to 235. The clipped steering is computed into \<^verbatim>\<open>steering\<close>, and the
  \<^verbatim>\<open>VehicleControl\<close> is built with \<^verbatim>\<open>steer=steering_angle\<close>.
\<close>

definition actuation :: "real \<Rightarrow> real \<Rightarrow> float64 \<Rightarrow> VehicleControl" where
  "actuation throttle0 brake0 steering_angle =
     (let throttle1 = np_clip throttle0 0 1;
          brake1 = np_clip brake0 0 1;
          steering = fclip steering_angle (- 1) 1
      in \<lparr> throttle = throttle1, steer = steering_angle, brake = brake1 \<rparr>)"

text \<open>Lines 221 to 224, the branch for a target speed under 3.5 km/h.\<close>

definition near_stop ::
  "VehicleController \<Rightarrow> real \<Rightarrow> bool \<Rightarrow> (stop + VehicleControl) \<times> VehicleController" where
  "near_stop self speed update_pids =
     (let throttle0 = 0;
          steering_angle = Fin 0;
          (result, brake_control') = PidController_step (brake_control self) speed update_pids;
          self' = self\<lparr> brake_control := brake_control' \<rparr>
      in case result of
           Inl exn \<Rightarrow> (Inl ZeroTimestep, self')
         | Inr brake0 \<Rightarrow>
             (let brake1 = py_max brake0 (5 / 100)
              in (Inr (actuation throttle0 brake1 steering_angle), self')))"

text \<open>
  Lines 226 to 227, the other branch. \<^verbatim>\<open>acceleration\<close> is the target speed minus the
  current speed, a NumPy scalar.
\<close>

definition driving ::
  "VehicleController \<Rightarrow> float64 \<Rightarrow> float64 \<Rightarrow> bool
     \<Rightarrow> (stop + VehicleControl) \<times> VehicleController" where
  "driving self acceleration steering_angle update_pids =
     (case acceleration of
        Fin a \<Rightarrow>
          (let (result1, speed_control') = PidController_step (speed_control self) a update_pids;
               self1 = self\<lparr> speed_control := speed_control' \<rparr>
           in case result1 of
                Inl exn \<Rightarrow> (Inl ZeroTimestep, self1)
              | Inr throttle0 \<Rightarrow>
                  (let (result2, brake_control') =
                         PidController_step (brake_control self1) (- a) update_pids;
                       self2 = self1\<lparr> brake_control := brake_control' \<rparr>
                   in case result2 of
                        Inl exn \<Rightarrow> (Inl ZeroTimestep, self2)
                      | Inr brake0 \<Rightarrow>
                          (Inr (actuation throttle0 brake0 steering_angle), self2)))
      | _ \<Rightarrow> (Inl NonFinite, self))"

text \<open>The test of line 220 on the target speed.\<close>

definition under_stop_threshold :: "float64 \<Rightarrow> bool" where
  "under_stop_threshold target_speed' =
     flt (fdiv (fmul (fmul target_speed' (Fin 60)) (Fin 60)) (Fin 1000)) (Fin (35 / 10))"

text \<open>
  \<^verbatim>\<open>VehicleController.step\<close> (lines 184 to 235). The waypoints come as an \<open>(N, 2)\<close> array;
  line 197 swaps the two coordinates of each. Line 206 raises \<^verbatim>\<open>NameError\<close> when
  \<^verbatim>\<open>logger\<close> is not bound; nothing before it raises.
\<close>

definition VehicleController_step ::
  "bool \<Rightarrow> VehicleController \<Rightarrow> real \<Rightarrow> point list \<Rightarrow> bool
     \<Rightarrow> (stop + VehicleControl) \<times> VehicleController" where
  "VehicleController_step logger_bound self speed waypoints0 update_pids =
     (let waypoints = map prod.swap waypoints0;
          target_speed' = target_speed self waypoints;
          acceleration = fsub target_speed' (Fin speed)
      in if \<not> logger_bound then (Inl (Raises NameError), self)
         else
           case interpolate_waypoint_n_meters_ahead waypoints 5 of
             Inl exn \<Rightarrow> (Inl (Raises exn), self)
           | Inr (x, y) \<Rightarrow>
               (case turning_radius_to x y of
                  Inl exn \<Rightarrow> (Inl (Raises exn), self)
                | Inr radius \<Rightarrow>
                    (let steering_angle0 = kinematic_bicycle self radius;
                         steering_angle =
                           (if flt x (Fin 0) then fneg steering_angle0 else steering_angle0)
                     in if under_stop_threshold target_speed'
                        then near_stop self speed update_pids
                        else driving self acceleration steering_angle update_pids)))"

text \<open>
  For the concrete runs below: the controller that \<^verbatim>\<open>__init__\<close> builds with its default
  step gap 5 and timestep 0.1, for a vehicle whose conversion of a turning radius to a
  steering angle is a wheelbase of 3 over the radius (zero for an infinite radius).
\<close>

definition example_controller :: VehicleController where
  "example_controller = VehicleController_init (\<lambda>radius. fdiv (Fin 3) radius) 5 (1 / 10)"


section \<open>Properties of the PID controller\<close>

lemma PidController_step_raises:
  "fst (PidController_step self error update) = Inl exn \<longleftrightarrow>
     (previous_error self \<noteq> None \<and> dt self = 0 \<and> exn = ZeroDivisionError)"
  by (auto simp: PidController_step_def py_truediv_def Let_def split: option.splits)

lemma PidController_step_returns:
  "dt self \<noteq> 0 \<or> previous_error self = None \<Longrightarrow>
     \<exists>control. fst (PidController_step self error update) = Inr control"
  by (auto simp: PidController_step_def py_truediv_def Let_def split: option.splits)

text \<open>
  C1. Whenever \<^verbatim>\<open>PidController.step\<close> returns, the control output is
  \<open>proportional * error + integral * I + derivative * D\<close>, where \<open>I\<close> is the error integral
  stored in the controller when the call started (not the integral this step computes and
  commits) and \<open>D\<close> is the derivative term. The output of a step lags the integral by one
  step.
\<close>

theorem pid_output_uses_stored_integral:
  "fst (PidController_step self error update) = Inr control \<Longrightarrow>
     control = coef_proportional self * error
             + coef_integral self * error_integral self
             + coef_derivative self * derivative_term self error"
  by (auto simp: PidController_step_def py_truediv_def derivative_term_def Let_def
           split: option.splits if_splits)

theorem pid_output_uses_stored_integral_witness:
  "fst (PidController_step
          ((PidController_init (1/2) 2 3 5 0)\<lparr> previous_error := Some 1, error_integral := 10 \<rparr>)
          4 True) = Inr 68
   \<and> (68::real) = 2 * 4 + 3 * 10 + 5 * ((4 - 1) / (1/2))
   \<and> error_integral (snd (PidController_step
          ((PidController_init (1/2) 2 3 5 0)\<lparr> previous_error := Some 1, error_integral := 10 \<rparr>)
          4 True)) = 12"
  using pid_output_uses_stored_integral
    [of "(PidController_init (1/2) 2 3 5 0)\<lparr> previous_error := Some 1, error_integral := 10 \<rparr>"
        4 True 68]
  by (simp add: PidController_step_def PidController_init_def py_truediv_def Let_def)

text \<open>
  C5. A call of \<^verbatim>\<open>PidController.step\<close> with \<^verbatim>\<open>update=False\<close> leaves the whole controller,
  and so the stored previous error and error integral, as it was; a second such call with
  the same error returns (or raises) what the first did.
\<close>

theorem pid_preview_leaves_state:
  "snd (PidController_step self error False) = self
   \<and> previous_error (snd (PidController_step self error False)) = previous_error self
   \<and> error_integral (snd (PidController_step self error False)) = error_integral self
   \<and> fst (PidController_step (snd (PidController_step self error False)) error False)
       = fst (PidController_step self error False)"
proof -
  have same: "snd (PidController_step self error False) = self"
    by (simp add: PidController_step_def Let_def split: option.splits sum.splits)
  then show ?thesis by simp
qed

text \<open>
  C9. With an integral discounting of 1.0, a step committed with \<^verbatim>\<open>update=True\<close> that
  returns stores exactly \<open>error * dt\<close> as the error integral, whatever the integral was
  before; so after any non-empty run of updating steps that return, the stored integral is
  the last error times the timestep.
\<close>

theorem pid_full_discounting_memoryless:
  "integral_discounting self = 1 \<Longrightarrow>
   fst (PidController_step self error True) = Inr control \<Longrightarrow>
     error_integral (snd (PidController_step self error True)) = error * dt self"
  by (auto simp: PidController_step_def py_truediv_def Let_def split: option.splits if_splits)

theorem pid_full_discounting_memoryless_witness:
  "integral_discounting ((PidController_init (1/10) 1 1 1 1)\<lparr> error_integral := 7 \<rparr>) = 1
   \<and> fst (PidController_step ((PidController_init (1/10) 1 1 1 1)\<lparr> error_integral := 7 \<rparr>) 3 True)
       = Inr 10
   \<and> error_integral
       (snd (PidController_step ((PidController_init (1/10) 1 1 1 1)\<lparr> error_integral := 7 \<rparr>) 3 True))
       = 3 * (1/10)"
  using pid_full_discounting_memoryless
    [of "(PidController_init (1/10) 1 1 1 1)\<lparr> error_integral := 7 \<rparr>" 3 10]
  by (simp add: PidController_step_def PidController_init_def py_truediv_def Let_def)

text \<open>
  The same over a whole history: whatever the controller held and whatever errors came
  before, after a run of updating steps the integral is the last error times the timestep.
\<close>

lemma PidController_step_keeps_parameters:
  "integral_discounting (snd (PidController_step self error update)) = integral_discounting self
   \<and> dt (snd (PidController_step self error update)) = dt self"
  by (simp add: PidController_step_def Let_def split: option.splits sum.splits)

lemma PidController_run_keeps_parameters:
  "integral_discounting (PidController_run self errors) = integral_discounting self
   \<and> dt (PidController_run self errors) = dt self"
  by (induction errors arbitrary: self) (simp_all add: PidController_step_keeps_parameters)

lemma PidController_run_append:
  "PidController_run self (xs @ ys) = PidController_run (PidController_run self xs) ys"
  by (induction xs arbitrary: self) simp_all

lemma pid_full_discounting_run:
  assumes "integral_discounting self = 1" "dt self \<noteq> 0"
  shows "error_integral (PidController_run self (errors @ [error])) = error * dt self"
proof -
  let ?s = "PidController_run self errors"
  have par: "integral_discounting ?s = 1" "dt ?s = dt self" "dt ?s \<noteq> 0"
    using assms by (simp_all add: PidController_run_keeps_parameters)
  have "error_integral (snd (PidController_step ?s error True)) = error * dt ?s"
    using par(1,3)
    by (simp add: PidController_step_def py_truediv_def Let_def split: option.splits)
  then show ?thesis
    by (simp add: PidController_run_append par(2))
qed

text \<open>
  C10. The value \<^verbatim>\<open>PidController.step\<close> returns (or the exception it raises) does not
  depend on the \<^verbatim>\<open>update\<close> flag.
\<close>

theorem pid_output_independent_of_update:
  "fst (PidController_step self error True) = fst (PidController_step self error False)"
  by (simp add: PidController_step_def Let_def split: option.splits sum.splits)


section \<open>Properties of the turning radius\<close>

lemma fneg_eq_zero: "fneg x = Fin 0 \<longleftrightarrow> x = Fin 0"
  by (cases x) auto

lemma fneg_eq_NaN: "fneg x = NaN \<longleftrightarrow> x = NaN"
  by (cases x) auto

lemma fmul_fneg_self: "fmul (fneg x) (fneg x) = fmul x x"
  by (cases x) (auto simp: scale_inf_def)

lemma fabs_fneg: "fabs (fneg x) = fabs x"
  by (cases x) auto

lemma turning_radius_to_fneg: "turning_radius_to (fneg x) y = turning_radius_to x y"
  by (simp add: turning_radius_to_def feq_def fneg_eq_zero fneg_eq_NaN fmul_fneg_self fabs_fneg)

text \<open>The division of \<^verbatim>\<open>_turning_radius_to\<close> never raises: its divisor is zero only when
  \<open>x\<close> is, and then line 60 has returned.\<close>

lemma turning_radius_to_returns: "\<exists>radius. turning_radius_to x y = Inr radius"
  by (cases x) (auto simp: turning_radius_to_def py_fdiv_def feq_def scale_inf_def)

text \<open>
  C7. For every \<open>x\<close> other than 0 and every \<open>y\<close>, \<^verbatim>\<open>_turning_radius_to\<close> returns the same
  for \<open>x\<close> and \<open>-x\<close>; for \<open>x = 0\<close> it returns \<^verbatim>\<open>math.inf\<close> whatever \<open>y\<close> is; and it
  returns 0.5 at \<open>(1, 0)\<close> and 1.0 at \<open>(1, 1)\<close>.
\<close>

theorem turning_radius_symmetry_and_values:
  "(\<forall>x y. \<not> feq x (Fin 0) \<longrightarrow> turning_radius_to x y = turning_radius_to (fneg x) y)
   \<and> (\<forall>y. turning_radius_to (Fin 0) y = Inr PInf)
   \<and> turning_radius_to (Fin 1) (Fin 0) = Inr (Fin (1 / 2))
   \<and> turning_radius_to (Fin 1) (Fin 1) = Inr (Fin 1)"
proof (intro conjI allI impI)
  fix x y
  show "turning_radius_to x y = turning_radius_to (fneg x) y"
    by (simp only: turning_radius_to_fneg)
next
  fix y
  show "turning_radius_to (Fin 0) y = Inr PInf"
    by (simp add: turning_radius_to_def feq_def)
next
  show "turning_radius_to (Fin 1) (Fin 0) = Inr (Fin (1 / 2))"
    by (simp add: turning_radius_to_def py_fdiv_def feq_def)
next
  show "turning_radius_to (Fin 1) (Fin 1) = Inr (Fin 1)"
    by (simp add: turning_radius_to_def py_fdiv_def feq_def)
qed

theorem turning_radius_symmetry_and_values_witness:
  "\<not> feq (Fin 3) (Fin 0)
   \<and> turning_radius_to (Fin 3) (Fin 4) = Inr (Fin (25 / 6))
   \<and> turning_radius_to (fneg (Fin 3)) (Fin 4) = Inr (Fin (25 / 6))"
  using turning_radius_symmetry_and_values [THEN conjunct1, rule_format, of "Fin 3" "Fin 4"]
  by (simp add: turning_radius_to_def py_fdiv_def feq_def)


section \<open>Properties of the waypoint interpolator\<close>

lemma norm2_zero_iff: "norm2 (psub a b) = 0 \<longleftrightarrow> a = b"
  by (cases a; cases b) (auto simp: norm2_def psub_def)

lemma norm2_nonneg: "0 \<le> norm2 v"
  by (simp add: norm2_def)

lemma norm2_on_axis: "norm2 (a, 0) = \<bar>a\<bar>" "norm2 (0, b) = \<bar>b\<bar>"
  by (simp_all add: norm2_def)

lemma polyline_length_nonneg: "0 \<le> polyline_length cur ws"
  by (induction ws arbitrary: cur) (auto simp: add_nonneg_nonneg norm2_nonneg)

lemma offset_along_finite:
  "d \<noteq> 0 \<Longrightarrow> offset_along base direction d len =
     (Fin (fst base + fst direction / d * len), Fin (snd base + snd direction / d * len))"
  by (simp add: offset_along_def)

text \<open>A non-empty sequence of waypoints never makes the interpolator raise.\<close>

lemma interpolate_loop_returns:
  "ws \<noteq> [] \<or> d \<noteq> None \<Longrightarrow> \<exists>p. interpolate_loop ws meters tot prev cur d = Inr p"
  by (induction ws arbitrary: tot prev cur d) (auto simp: Let_def)

lemma interpolate_returns:
  "waypoints \<noteq> [] \<Longrightarrow> \<exists>p. interpolate_waypoint_n_meters_ahead waypoints meters = Inr p"
  unfolding interpolate_waypoint_n_meters_ahead_def
  by (rule interpolate_loop_returns) simp

lemma interpolate_empty:
  "interpolate_waypoint_n_meters_ahead [] meters = Inl UnboundLocalError"
  by (simp add: interpolate_waypoint_n_meters_ahead_def)

text \<open>
  The loop, entered at \<open>cur\<close> with \<open>tot\<close> already walked, when the rest of the polyline is
  too short to reach \<open>meters\<close>: it runs through all waypoints and the code after it
  extrapolates along the final segment.
\<close>

lemma interpolate_loop_beyond:
  "tot + polyline_length cur (w # ws) < meters \<Longrightarrow>
   final_start cur (w # ws) \<noteq> final_end cur (w # ws) \<Longrightarrow>
   interpolate_loop (w # ws) meters tot prev cur d =
     Inr (Fin (fst (extrapolated cur (w # ws) (meters - tot))),
          Fin (snd (extrapolated cur (w # ws) (meters - tot))))"
proof (induction ws arbitrary: w cur prev tot d)
  case Nil
  define n where "n = norm2 (psub w cur)"
  from Nil.prems(2) have ne: "n \<noteq> 0"
    by (auto simp: n_def final_start_def final_end_def norm2_zero_iff)
  from Nil.prems(1) have lt: "\<not> meters \<le> tot + n"
    by (simp add: n_def)
  have loop: "interpolate_loop [w] meters tot prev cur d
                = Inr (offset_along w (psub w cur) n (meters - (tot + n)))"
    using lt
    by (subst interpolate_loop.simps(2))
       (simp add: Let_def n_def [symmetric])
  have ex: "extrapolated cur [w] (meters - tot)
              = (fst w + (fst w - fst cur) / n * (meters - (tot + n)),
                 snd w + (snd w - snd cur) / n * (meters - (tot + n)))"
    by (simp add: extrapolated_def final_start_def final_end_def n_def [symmetric]
          algebra_simps)
  show ?case
    unfolding loop ex offset_along_finite [OF ne]
    by (simp add: psub_def)
next
  case (Cons w2 ws)
  define n where "n = norm2 (psub w cur)"
  have nn: "0 \<le> polyline_length w (w2 # ws)"
    by (rule polyline_length_nonneg)
  from Cons.prems(1) nn have lt: "\<not> meters \<le> tot + n"
    by (simp add: n_def)
  from Cons.prems(1)
  have len: "(tot + n) + polyline_length w (w2 # ws) < meters"
    by (simp add: n_def)
  from Cons.prems(2)
  have seg: "final_start w (w2 # ws) \<noteq> final_end w (w2 # ws)"
    by (simp add: final_start_def final_end_def)
  have same: "extrapolated w (w2 # ws) (meters - (tot + n))
                = extrapolated cur (w # w2 # ws) (meters - tot)"
    by (simp add: extrapolated_def final_start_def final_end_def Let_def n_def [symmetric]
          algebra_simps)
  have "interpolate_loop (w # w2 # ws) meters tot prev cur d
          = interpolate_loop (w2 # ws) meters (tot + n) cur w (Some n)"
    using lt
    by (subst interpolate_loop.simps(2))
       (simp add: Let_def n_def [symmetric] del: interpolate_loop.simps)
  also have "\<dots> = Inr (Fin (fst (extrapolated w (w2 # ws) (meters - (tot + n)))),
                         Fin (snd (extrapolated w (w2 # ws) (meters - (tot + n)))))"
    by (rule Cons.IH [OF len seg])
  finally show ?case
    by (simp only: same)
qed

lemma interpolate_beyond:
  assumes "waypoints \<noteq> []" "polyline_length (0, 0) waypoints < meters"
    "final_start (0, 0) waypoints \<noteq> final_end (0, 0) waypoints"
  shows "interpolate_waypoint_n_meters_ahead waypoints meters =
     Inr (Fin (fst (extrapolated (0, 0) waypoints meters)),
          Fin (snd (extrapolated (0, 0) waypoints meters)))"
proof -
  from assms(1) obtain w ws where wps: "waypoints = w # ws"
    by (cases waypoints) auto
  show ?thesis
    using interpolate_loop_beyond [of 0 "(0, 0)" w ws meters "(0, 0)" None] assms(2,3)
    unfolding wps interpolate_waypoint_n_meters_ahead_def by simp
qed

text \<open>The waypoint \<open>(0.3, -0.3)\<close> of the test, at distance 20.\<close>

lemma sqrt_18_100: "sqrt (18 / 100) = 3 / 10 * sqrt 2"
proof -
  have "sqrt (18 / 100) = sqrt ((3 / 10)\<^sup>2 * 2)"
    by (simp add: power2_eq_square)
  also have "\<dots> = sqrt ((3 / 10)\<^sup>2) * sqrt 2"
    by (rule real_sqrt_mult)
  also have "\<dots> = 3 / 10 * sqrt 2"
    by simp
  finally show ?thesis .
qed

lemma sqrt_200: "sqrt 200 = 10 * sqrt 2"
proof -
  have "sqrt 200 = sqrt (10\<^sup>2 * 2)"
    by simp
  also have "\<dots> = sqrt (10\<^sup>2) * sqrt 2"
    by (rule real_sqrt_mult)
  also have "\<dots> = 10 * sqrt 2"
    by simp
  finally show ?thesis .
qed

lemma test_waypoint_norm: "norm2 (psub (3 / 10, - (3 / 10)) (0, 0)) = 3 / 10 * sqrt 2"
proof -
  have sq: "(3 / 10 :: real)\<^sup>2 + (- (3 / 10))\<^sup>2 = 18 / 100"
    by (simp add: power2_eq_square)
  have "norm2 (psub (3 / 10, - (3 / 10)) (0, 0)) = sqrt ((3 / 10)\<^sup>2 + (- (3 / 10))\<^sup>2)"
    by (simp add: norm2_def psub_def)
  also have "\<dots> = 3 / 10 * sqrt 2"
    by (simp only: sq sqrt_18_100)
  finally show ?thesis .
qed

lemma test_waypoint_at_20:
  "interpolate_waypoint_n_meters_ahead [(3 / 10, - (3 / 10))] 20
     = Inr (Fin (sqrt 200), Fin (- sqrt 200))"
proof -
  have s2: "sqrt 2 * sqrt 2 = (2::real)" by simp
  have pos: "sqrt 2 > (0::real)" by simp
  have lt: "\<not> (20::real) \<le> 3 / 10 * sqrt 2"
    using sqrt2_less_2 by simp
  have x: "3 / 10 + 3 / 10 / (3 / 10 * sqrt 2) * (20 - 3 / 10 * sqrt 2) = 10 * sqrt 2"
  proof -
    have "3 / 10 / (3 / 10 * sqrt 2) = 1 / sqrt 2" by simp
    moreover have "1 / sqrt 2 * (20 - 3 / 10 * sqrt 2) = 20 / sqrt 2 - 3 / 10"
      using pos by (simp add: field_simps)
    moreover have "20 / sqrt 2 = 10 * sqrt 2"
      using pos s2 by (simp add: field_simps)
    ultimately show ?thesis by simp
  qed
  have y: "- (3 / 10) + - (3 / 10) / (3 / 10 * sqrt 2) * (20 - 3 / 10 * sqrt 2)
             = - (10 * sqrt 2)"
    using x by (simp add: field_simps)
  have "interpolate_waypoint_n_meters_ahead [(3 / 10, - (3 / 10))] 20
          = Inr (offset_along (3 / 10, - (3 / 10)) (psub (3 / 10, - (3 / 10)) (0, 0))
                   (3 / 10 * sqrt 2) (20 - (0 + 3 / 10 * sqrt 2)))"
    using lt
    by (simp only: interpolate_waypoint_n_meters_ahead_def interpolate_loop.simps Let_def
          test_waypoint_norm add_0 if_False option.case)
  also have "\<dots> = Inr (Fin (3 / 10 + 3 / 10 / (3 / 10 * sqrt 2) * (20 - 3 / 10 * sqrt 2)),
                         Fin (- (3 / 10) + - (3 / 10) / (3 / 10 * sqrt 2)
                                * (20 - 3 / 10 * sqrt 2)))"
    by (simp add: offset_along_def psub_def)
  also have "\<dots> = Inr (Fin (10 * sqrt 2), Fin (- (10 * sqrt 2)))"
    by (simp only: x y)
  finally show ?thesis
    by (simp only: sqrt_200)
qed

text \<open>
  C6, as the code has it. The claim as stated, for every non-empty polyline, fails where
  the final segment has no length (a waypoint repeated, or a single waypoint at the
  origin): the direction is then \<open>0 / 0\<close> and both coordinates returned are \<open>nan\<close>.
\<close>

theorem extrapolation_degenerate_final_segment:
  "[(1, 0), (1, 0)] \<noteq> ([] :: point list)
   \<and> polyline_length (0, 0) [(1, 0), (1, 0)] < 5
   \<and> interpolate_waypoint_n_meters_ahead [(1, 0), (1, 0)] 5 = Inr (NaN, NaN)"
  by (simp add: interpolate_waypoint_n_meters_ahead_def norm2_on_axis psub_def offset_along_def)

text \<open>
  C6, amended. For every non-empty polyline whose final segment has a length, and every
  distance greater than the length of the polyline, the interpolator returns the point
  beyond the last waypoint, on the line of the final segment, at that distance along the
  path; and for the one waypoint \<open>(0.3, -0.3)\<close> at distance 20 it returns
  \<open>(sqrt 200, - sqrt 200)\<close>.
\<close>

theorem extrapolation_along_final_segment:
  "(\<forall>waypoints meters.
      waypoints \<noteq> [] \<longrightarrow>
      polyline_length (0, 0) waypoints < meters \<longrightarrow>
      final_start (0, 0) waypoints \<noteq> final_end (0, 0) waypoints \<longrightarrow>
      interpolate_waypoint_n_meters_ahead waypoints meters =
        Inr (Fin (fst (extrapolated (0, 0) waypoints meters)),
             Fin (snd (extrapolated (0, 0) waypoints meters))))
   \<and> interpolate_waypoint_n_meters_ahead [(3 / 10, - (3 / 10))] 20
       = Inr (Fin (sqrt 200), Fin (- sqrt 200))"
  using interpolate_beyond test_waypoint_at_20 by blast

theorem extrapolation_along_final_segment_witness:
  "[(0, 2)] \<noteq> ([] :: point list)
   \<and> polyline_length (0, 0) [(0, 2)] < 7
   \<and> final_start (0, 0) [(0, 2)] \<noteq> final_end (0, 0) [(0, 2)]
   \<and> extrapolated (0, 0) [(0, 2)] 7 = (0, 7)
   \<and> interpolate_waypoint_n_meters_ahead [(0, 2)] 7 = Inr (Fin 0, Fin 7)"
  using extrapolation_along_final_segment [THEN conjunct1, rule_format, of "[(0, 2)]" 7]
  by (simp add: norm2_on_axis psub_def final_start_def final_end_def extrapolated_def)

text \<open>
  C8, as the code has it. The claim as stated, for every non-empty polyline, fails where
  the first waypoint is the origin itself: the first segment has no length, its direction
  is \<open>0 / 0\<close>, and the interpolator returns \<open>(nan, nan)\<close>.
\<close>

theorem distance_zero_first_waypoint_at_origin:
  "[(0, 0)] \<noteq> ([] :: point list)
   \<and> interpolate_waypoint_n_meters_ahead [(0, 0)] 0 = Inr (NaN, NaN)
   \<and> interpolate_waypoint_n_meters_ahead [(0, 0)] 0 \<noteq> Inr (Fin 0, Fin 0)"
  by (simp add: interpolate_waypoint_n_meters_ahead_def norm2_on_axis psub_def offset_along_def)

text \<open>
  C8, amended. For every non-empty polyline whose first waypoint is not the origin,
  interpolating at distance 0 returns the origin \<open>(0, 0)\<close>.
\<close>

theorem distance_zero_is_origin:
  "waypoints \<noteq> [] \<Longrightarrow> hd waypoints \<noteq> (0, 0) \<Longrightarrow>
     interpolate_waypoint_n_meters_ahead waypoints 0 = Inr (Fin 0, Fin 0)"
  by (cases waypoints)
     (simp_all add: interpolate_waypoint_n_meters_ahead_def offset_along_def Let_def
        norm2_zero_iff norm2_nonneg)

theorem distance_zero_is_origin_witness:
  "[(3, 4), (6, 8)] \<noteq> ([] :: point list) \<and> hd [(3, 4), (6, 8)] \<noteq> ((0, 0) :: point)
   \<and> interpolate_waypoint_n_meters_ahead [(3, 4), (6, 8)] 0 = Inr (Fin 0, Fin 0)"
  using distance_zero_is_origin [of "[(3, 4), (6, 8)]"]
  by simp


section \<open>Properties of the vehicle controller\<close>

lemma example_controller_fields:
  "waypoint_step_gap example_controller = 5"
  "vc_dt example_controller = 1 / 10"
  "kinematic_bicycle example_controller = (\<lambda>radius. fdiv (Fin 3) radius)"
  "speed_control example_controller = PidController_init (1 / 10) (5 / 10) (5 / 100) (2 / 100) 0"
  "brake_control example_controller = PidController_init (1 / 10) (5 / 10) (5 / 100) (2 / 100) 0"
  by (simp_all add: example_controller_def VehicleController_init_def)

text \<open>What the returned record holds: throttle and brake are clipped, the steering is not.\<close>

lemma actuation_fields:
  "throttle (actuation t b s) = np_clip t 0 1"
  "brake (actuation t b s) = np_clip b 0 1"
  "steer (actuation t b s) = s"
  by (simp_all add: actuation_def)

lemma vehicle_step_result_is_actuation:
  "fst (VehicleController_step logger_bound self speed waypoints update_pids) = Inr control
     \<Longrightarrow> \<exists>t b s. control = actuation t b s"
  by (auto simp: VehicleController_step_def Let_def near_stop_def driving_def
           split: if_splits sum.splits prod.splits float64.splits)

lemma vehicle_step_throttle_brake_clamped:
  assumes "fst (VehicleController_step logger_bound self speed waypoints update_pids)
             = Inr control"
  shows "0 \<le> throttle control \<and> throttle control \<le> 1
         \<and> 0 \<le> brake control \<and> brake control \<le> 1"
proof -
  from vehicle_step_result_is_actuation [OF assms] obtain t b s
    where "control = actuation t b s" by blast
  then show ?thesis by (simp add: actuation_fields np_clip_def)
qed

text \<open>
  With \<^verbatim>\<open>logger\<close> bound, at least one waypoint, and step gap and timesteps other than
  zero, the call returns an actuation.
\<close>

lemma target_speed_finite:
  assumes "waypoints \<noteq> []" "real_of_int (waypoint_step_gap self) * vc_dt self \<noteq> 0"
  shows "\<exists>t. target_speed self waypoints = Fin t"
proof -
  from assms(1) obtain w ws where "waypoints = w # ws" by (cases waypoints) auto
  then show ?thesis using assms(2)
    by (simp add: target_speed_def np_mean_def Let_def)
qed

lemma vehicle_step_returns:
  assumes "waypoints \<noteq> []" "real_of_int (waypoint_step_gap self) * vc_dt self \<noteq> 0"
    "dt (speed_control self) \<noteq> 0" "dt (brake_control self) \<noteq> 0"
  shows "\<exists>control. fst (VehicleController_step True self speed waypoints update_pids)
           = Inr control"
proof -
  from assms(1) have ne: "map prod.swap waypoints \<noteq> []" by simp
  from interpolate_returns [OF ne] obtain x y where
    i: "interpolate_waypoint_n_meters_ahead (map prod.swap waypoints) 5 = Inr (x, y)"
    by fastforce
  from turning_radius_to_returns obtain r where r: "turning_radius_to x y = Inr r"
    by blast
  from target_speed_finite [OF ne assms(2)] obtain t where
    t: "target_speed self (map prod.swap waypoints) = Fin t" by blast
  from PidController_step_returns [of "brake_control self" speed update_pids] assms(4)
  obtain b where
    b: "fst (PidController_step (brake_control self) speed update_pids) = Inr b" by blast
  from PidController_step_returns [of "speed_control self" "t - speed" update_pids] assms(3)
  obtain th where
    th: "fst (PidController_step (speed_control self) (t - speed) update_pids) = Inr th"
    by blast
  from PidController_step_returns [of "brake_control self" "- (t - speed)" update_pids] assms(4)
  obtain b2 where
    b2: "fst (PidController_step (brake_control self) (- (t - speed)) update_pids) = Inr b2"
    by blast
  show ?thesis
    using b th b2
    by (auto simp: VehicleController_step_def Let_def i r t near_stop_def driving_def fsub_def
          split: prod.splits sum.splits)
qed

text \<open>
  A drive forward and then to the side: waypoints \<open>(1, 0)\<close> and \<open>(1, 4)\<close> in (forward,
  lateral) order, at speed 4.
\<close>

lemma turn_interpolated:
  "interpolate_waypoint_n_meters_ahead [(0, 1), (4, 1)] 5 = Inr (Fin 4, Fin 1)"
  by (simp add: interpolate_waypoint_n_meters_ahead_def norm2_on_axis psub_def offset_along_def)

lemma turn_target_speed: "target_speed example_controller [(0, 1), (4, 1)] = Fin 5"
  by (simp add: target_speed_def example_controller_fields np_mean_def norm2_on_axis psub_def)

lemma turn_radius: "turning_radius_to (Fin 4) (Fin 1) = Inr (Fin (17 / 8))"
  by (simp add: turning_radius_to_def py_fdiv_def feq_def)

lemma turn_driving:
  "fst (driving example_controller (Fin 1) s True) = Inr (actuation (1 / 2) (- 1 / 2) s)"
  by (simp add: driving_def Let_def example_controller_fields split_beta
        PidController_step_def PidController_init_def)

text \<open>
  C2. The claim holds for throttle and brake (\<open>vehicle_step_throttle_brake_clamped\<close>) and
  fails for the steering: line 231 clips the steering angle into \<^verbatim>\<open>steering\<close>, and line
  234 passes the unclipped \<^verbatim>\<open>steering_angle\<close> on. For the turn above, the radius is
  17/8, the steering angle is 24/17, and that is the steering the call returns, where its
  clipped value is 1.
\<close>

theorem steering_returned_unclipped:
  "fst (VehicleController_step True example_controller 4 [(1, 0), (1, 4)] True)
     = Inr \<lparr> throttle = 1 / 2, steer = Fin (24 / 17), brake = 0 \<rparr>
   \<and> flt (Fin 1) (Fin (24 / 17))
   \<and> fclip (Fin (24 / 17)) (- 1) 1 = Fin 1"
  by (simp add: VehicleController_step_def Let_def turn_interpolated turn_target_speed
        turn_radius example_controller_fields under_stop_threshold_def fsub_def turn_driving
        actuation_def np_clip_def)

text \<open>
  C4. With controller.py as it is, where nothing binds \<^verbatim>\<open>logger\<close>, every call of
  \<^verbatim>\<open>VehicleController.step\<close> raises \<^verbatim>\<open>NameError\<close> at line 206, whatever the speed and the
  waypoints, and leaves the controller as it was.
\<close>

theorem vehicle_step_raises_name_error:
  "fst (VehicleController_step False self speed waypoints update_pids) = Inl (Raises NameError)
   \<and> snd (VehicleController_step False self speed waypoints update_pids) = self"
  by (simp add: VehicleController_step_def Let_def)

text \<open>A crawl: one waypoint 0.1 ahead, which is a target speed of 0.2, or 0.72 km/h.\<close>

lemma crawl_interpolated:
  "interpolate_waypoint_n_meters_ahead [(0, 1 / 10)] 5 = Inr (Fin 0, Fin 5)"
  by (simp add: interpolate_waypoint_n_meters_ahead_def norm2_on_axis psub_def offset_along_def)

lemma crawl_target_speed: "target_speed example_controller [(0, 1 / 10)] = Fin (1 / 5)"
  by (simp add: target_speed_def example_controller_fields np_mean_def norm2_on_axis psub_def)

lemma crawl_near_stop:
  "fst (near_stop example_controller speed True) = Inr (actuation 0 (py_max (speed / 2) (5 / 100)) (Fin 0))"
  by (simp add: near_stop_def Let_def example_controller_fields split_beta
        PidController_step_def PidController_init_def)

lemma crawl_step:
  "fst (VehicleController_step True example_controller speed [(1 / 10, 0)] True)
     = Inr (actuation 0 (py_max (speed / 2) (5 / 100)) (Fin 0))"
  by (simp add: VehicleController_step_def Let_def crawl_interpolated crawl_target_speed
        turning_radius_to_def feq_def under_stop_threshold_def crawl_near_stop)

lemma crawl_brake_pid:
  "fst (PidController_step (brake_control example_controller) speed True) = Inr (speed / 2)"
  by (simp add: example_controller_fields PidController_step_def PidController_init_def)

text \<open>
  C3, as the code has it. The claim as stated fails for the brake: at speed 10 the braking
  PID returns 5, and the brake returned is not 5 (the greater of 5 and 0.05) but 1,
  because line 230 clips it to the range from 0 to 1.
\<close>

theorem near_stop_brake_is_clipped:
  "under_stop_threshold (target_speed example_controller (map prod.swap [(1 / 10, 0)]))
   \<and> fst (VehicleController_step True example_controller 10 [(1 / 10, 0)] True)
       = Inr \<lparr> throttle = 0, steer = Fin 0, brake = 1 \<rparr>
   \<and> fst (PidController_step (brake_control example_controller) 10 True) = Inr 5
   \<and> py_max 5 (5 / 100) = 5
   \<and> (1 :: real) \<noteq> py_max 5 (5 / 100)"
  by (simp add: crawl_step crawl_brake_pid crawl_target_speed under_stop_threshold_def
        actuation_def np_clip_def py_max_def)

lemma near_stop_result:
  "fst (near_stop self speed update_pids) = Inr control \<Longrightarrow>
     throttle control = 0 \<and> steer control = Fin 0
     \<and> (\<exists>b. fst (PidController_step (brake_control self) speed update_pids) = Inr b
            \<and> brake control = min (max b (5 / 100)) 1)
     \<and> 5 / 100 \<le> brake control \<and> brake control \<le> 1"
  by (auto simp: near_stop_def Let_def actuation_def np_clip_def py_max_def
           split: prod.splits sum.splits)

text \<open>
  C3, amended. Whenever the target speed times 3600/1000 is below 3.5 and
  \<^verbatim>\<open>VehicleController.step\<close> returns, the throttle returned is 0, the steering returned is
  0, and the brake returned is the output of the braking PID on the current speed, raised
  to 0.05 when it is less and then cut to 1 when it is more; so the brake is never below
  0.05 and never above 1.
\<close>

theorem near_stop_actuation:
  assumes "under_stop_threshold (target_speed self (map prod.swap waypoints))"
      and "fst (VehicleController_step logger_bound self speed waypoints update_pids)
             = Inr control"
  shows "throttle control = 0 \<and> steer control = Fin 0
     \<and> (\<exists>b. fst (PidController_step (brake_control self) speed update_pids) = Inr b
            \<and> brake control = min (max b (5 / 100)) 1)
     \<and> 5 / 100 \<le> brake control \<and> brake control \<le> 1"
proof -
  from assms have "fst (near_stop self speed update_pids) = Inr control"
    by (auto simp: VehicleController_step_def Let_def split: if_splits sum.splits prod.splits)
  then show ?thesis by (rule near_stop_result)
qed

theorem near_stop_actuation_witness:
  "under_stop_threshold (target_speed example_controller (map prod.swap [(1 / 10, 0)]))
   \<and> fst (VehicleController_step True example_controller (1 / 2) [(1 / 10, 0)] True)
       = Inr \<lparr> throttle = 0, steer = Fin 0, brake = 1 / 4 \<rparr>
   \<and> fst (PidController_step (brake_control example_controller) (1 / 2) True) = Inr (1 / 4)"
  using near_stop_actuation
    [of example_controller "[(1 / 10, 0)]" True "1 / 2" True
        "\<lparr> throttle = 0, steer = Fin 0, brake = 1 / 4 \<rparr>"]
  by (simp add: crawl_step crawl_brake_pid crawl_target_speed under_stop_threshold_def
        actuation_def np_clip_def py_max_def)

end
